theory Spec2Isabelle
  imports Main "HOL-Library.Word" "HOL-Library.Sublist"
begin

unbundle bit_operations_syntax

section \<open>Go strings, as byte lists\<close>

text \<open>
  A Go string is a sequence of bytes; \<^typ>\<open>string\<close> is a list of 8-bit characters, so
  \<open>len\<close> is \<^const>\<open>length\<close> and \<open>s[i:]\<close> is \<^const>\<open>drop\<close>. The functions of the packages
  \<open>strings\<close>, \<open>net\<close> and \<open>net/http\<close> that \<open>realip.go\<close> calls are written out here after the
  standard library (the \<open>net/netip\<close> based parser of current Go releases).
\<close>

type_synonym byte = "8 word"

text \<open>\<open>strings.Split(s, sep)\<close> for the one-byte separators that the source passes
  (\<open>","\<close>, \<open>";"\<close>, \<open>"="\<close>): the pieces between the separators, \<open>n + 1\<close> of them for
  \<open>n\<close> separators, so the empty string gives one empty piece.\<close>

fun Split :: "string \<Rightarrow> char \<Rightarrow> string list" where
  "Split [] sep = [[]]"
| "Split (c # cs) sep =
     (if c = sep then [] # Split cs sep
      else (case Split cs sep of p # ps \<Rightarrow> (c # p) # ps | [] \<Rightarrow> [[c]]))"

text \<open>\<open>unicode.IsSpace\<close> on UTF-8: the six ASCII white space bytes and the encodings of
  U+0085, U+00A0, U+1680, U+2000 to U+200A, U+2028, U+2029, U+202F, U+205F, U+3000.\<close>

definition spaceRunes :: "string list" where
  "spaceRunes =
     [[CHR 0x09], [CHR 0x0A], [CHR 0x0B], [CHR 0x0C], [CHR 0x0D], [CHR 0x20],
      [CHR 0xC2, CHR 0x85], [CHR 0xC2, CHR 0xA0], [CHR 0xE1, CHR 0x9A, CHR 0x80],
      [CHR 0xE2, CHR 0x80, CHR 0x80], [CHR 0xE2, CHR 0x80, CHR 0x81],
      [CHR 0xE2, CHR 0x80, CHR 0x82], [CHR 0xE2, CHR 0x80, CHR 0x83],
      [CHR 0xE2, CHR 0x80, CHR 0x84], [CHR 0xE2, CHR 0x80, CHR 0x85],
      [CHR 0xE2, CHR 0x80, CHR 0x86], [CHR 0xE2, CHR 0x80, CHR 0x87],
      [CHR 0xE2, CHR 0x80, CHR 0x88], [CHR 0xE2, CHR 0x80, CHR 0x89],
      [CHR 0xE2, CHR 0x80, CHR 0x8A], [CHR 0xE2, CHR 0x80, CHR 0xA8],
      [CHR 0xE2, CHR 0x80, CHR 0xA9], [CHR 0xE2, CHR 0x80, CHR 0xAF],
      [CHR 0xE2, CHR 0x81, CHR 0x9F], [CHR 0xE3, CHR 0x80, CHR 0x80]]"

text \<open>The width in bytes of the white space rune that starts the string, 0 when there is
  none.\<close>

definition leadingSpace :: "string \<Rightarrow> nat" where
  "leadingSpace s = (case List.find (\<lambda>p. prefix p s) spaceRunes of None \<Rightarrow> 0 | Some p \<Rightarrow> length p)"

function trimLeftSpace :: "string \<Rightarrow> string" where
  "trimLeftSpace s = (if leadingSpace s = 0 then s else trimLeftSpace (drop (leadingSpace s) s))"
  by pat_completeness auto
termination
proof (relation "measure length")
  fix s assume "leadingSpace s \<noteq> 0"
  then have "s \<noteq> []"
    by (auto simp: leadingSpace_def spaceRunes_def)
  with \<open>leadingSpace s \<noteq> 0\<close> show "(drop (leadingSpace s) s, s) \<in> measure length"
    by simp
qed simp

definition trailingSpace :: "string \<Rightarrow> nat" where
  "trailingSpace s = (case List.find (\<lambda>p. suffix p s) spaceRunes of None \<Rightarrow> 0 | Some p \<Rightarrow> length p)"

function trimRightSpace :: "string \<Rightarrow> string" where
  "trimRightSpace s =
     (if trailingSpace s = 0 then s else trimRightSpace (take (length s - trailingSpace s) s))"
  by pat_completeness auto
termination
proof (relation "measure length")
  fix s assume "trailingSpace s \<noteq> 0"
  then have "s \<noteq> []"
    by (auto simp: trailingSpace_def spaceRunes_def)
  with \<open>trailingSpace s \<noteq> 0\<close> show "(take (length s - trailingSpace s) s, s) \<in> measure length"
    by simp
qed simp

text \<open>\<open>strings.TrimSpace\<close>: leading white space runes go, then trailing ones.\<close>

definition TrimSpace :: "string \<Rightarrow> string" where
  "TrimSpace s = trimRightSpace (trimLeftSpace s)"

text \<open>\<open>strings.TrimLeft\<close> and \<open>strings.TrimRight\<close> with an ASCII cutset: every leading
  (trailing) byte that occurs in the cutset is removed.\<close>

definition TrimLeft :: "string \<Rightarrow> string \<Rightarrow> string" where
  "TrimLeft s cutset = dropWhile (\<lambda>c. c \<in> set cutset) s"

definition TrimRight :: "string \<Rightarrow> string \<Rightarrow> string" where
  "TrimRight s cutset = rev (dropWhile (\<lambda>c. c \<in> set cutset) (rev s))"

text \<open>\<open>strings.Contains(s, substr)\<close>.\<close>

fun Contains :: "string \<Rightarrow> string \<Rightarrow> bool" where
  "Contains [] substr = (substr = [])"
| "Contains (c # cs) substr = (prefix substr (c # cs) \<or> Contains cs substr)"

text \<open>\<open>strings.ContainsRune(s, r)\<close> for an ASCII rune.\<close>

definition ContainsRune :: "string \<Rightarrow> char \<Rightarrow> bool" where
  "ContainsRune s r = (r \<in> set s)"

text \<open>\<open>bytealg.IndexByteString\<close> and \<open>bytealg.LastIndexByteString\<close>; \<open>None\<close> is Go's \<open>-1\<close>.\<close>

definition IndexByteString :: "string \<Rightarrow> char \<Rightarrow> nat option" where
  "IndexByteString s c = (if c \<in> set s then Some (length (takeWhile (\<lambda>x. x \<noteq> c) s)) else None)"

definition LastIndexByteString :: "string \<Rightarrow> char \<Rightarrow> nat option" where
  "LastIndexByteString s c =
     (if c \<in> set s then Some (length s - 1 - length (takeWhile (\<lambda>x. x \<noteq> c) (rev s))) else None)"

section \<open>Package net: parsing addresses\<close>

definition isDigit :: "char \<Rightarrow> bool" where
  "isDigit c = (48 \<le> (of_char c :: nat) \<and> (of_char c :: nat) \<le> 57)"

text \<open>The value of a hexadecimal digit (\<open>0-9\<close>, \<open>a-f\<close>, \<open>A-F\<close>).\<close>

definition hexVal :: "char \<Rightarrow> 32 word option" where
  "hexVal c =
     (if 48 \<le> (of_char c :: nat) \<and> (of_char c :: nat) \<le> 57 then Some (of_char c - 48)
      else if 97 \<le> (of_char c :: nat) \<and> (of_char c :: nat) \<le> 102 then Some (of_char c - 97 + 10)
      else if 65 \<le> (of_char c :: nat) \<and> (of_char c :: nat) \<le> 70 then Some (of_char c - 65 + 10)
      else None)"

text \<open>
  \<open>netip.parseIPv4Fields\<close>: the loop over the bytes of a dotted-decimal address, with
  the current octet \<open>val\<close>, the number \<open>pos\<close> of octets already stored, the number
  \<open>digLen\<close> of digits of the current octet and the previous byte (\<open>None\<close> at index 0).
  An octet with a leading zero, an octet above 255, an empty octet, a fifth octet and any
  other byte are errors; so are fewer than four octets.
\<close>

fun parseIPv4Loop ::
  "int \<Rightarrow> nat \<Rightarrow> nat \<Rightarrow> byte list \<Rightarrow> char option \<Rightarrow> string \<Rightarrow> byte list option" where
  "parseIPv4Loop val pos digLen fields prev [] =
     (if pos < 3 then None else Some (fields[3 := of_int val]))"
| "parseIPv4Loop val pos digLen fields prev (c # cs) =
     (if isDigit c then
        (if digLen = 1 \<and> val = 0 then None
         else if val * 10 + of_char c - 48 > 255 then None
         else parseIPv4Loop (val * 10 + of_char c - 48) pos (digLen + 1) fields (Some c) cs)
      else if c = CHR ''.'' then
        (if prev = None \<or> cs = [] \<or> prev = Some (CHR ''.'') then None
         else if pos = 3 then None
         else parseIPv4Loop 0 (pos + 1) 0 (fields[pos := of_int val]) (Some c) cs)
      else None)"

definition parseIPv4Fields :: "string \<Rightarrow> byte list option" where
  "parseIPv4Fields s = parseIPv4Loop 0 0 0 [0, 0, 0, 0] None s"

text \<open>The inner loop of \<open>netip.parseIPv6\<close>: it reads the hexadecimal digits of one group and
  gives their number \<open>off\<close> and their value \<open>acc\<close>, a \<open>uint32\<close>; a fifth digit is an
  error.\<close>

fun hexGroup :: "nat \<Rightarrow> 32 word \<Rightarrow> string \<Rightarrow> (nat \<times> 32 word) option" where
  "hexGroup off acc [] = Some (off, acc)"
| "hexGroup off acc (c # cs) =
     (case hexVal c of
        None \<Rightarrow> Some (off, acc)
      | Some d \<Rightarrow>
          if off > 3 then None
          else if push_bit 4 acc + d > 0xFFFF then None
          else hexGroup (off + 1) (push_bit 4 acc + d) cs)"

text \<open>
  One round of the outer loop of \<open>netip.parseIPv6\<close>, \<open>for i < 16\<close>, on the rest \<open>s\<close> of
  the input, the index \<open>i\<close> of the next byte of the array \<open>ip\<close>, and the position of the
  ellipsis (\<open>None\<close> is Go's \<open>-1\<close>). The round fails (an error is returned), leaves the loop
  by \<open>break\<close> in the state given, or goes on with a new rest, array and ellipsis and with
  \<open>i + 2\<close>. A group followed by a dot starts an embedded dotted-decimal address, which
  must fill the last four bytes.
\<close>

datatype round =
    Fail
  | Break string nat "byte list" "nat option"
  | Continue (contRest: string) (contArray: "byte list") (contEllipsis: "nat option")

definition parseIPv6Round :: "string \<Rightarrow> nat \<Rightarrow> byte list \<Rightarrow> nat option \<Rightarrow> round" where
  "parseIPv6Round s i ip ellipsis =
     (case hexGroup 0 0 s of
        None \<Rightarrow> Fail
      | Some (off, acc) \<Rightarrow>
          if off = 0 then Fail
          else if off < length s \<and> s ! off = CHR ''.'' then
            (if ellipsis = None \<and> i \<noteq> 12 then Fail
             else if i + 4 > 16 then Fail
             else
               (case parseIPv4Fields s of
                  None \<Rightarrow> Fail
                | Some f \<Rightarrow>
                    Break [] (i + 4)
                      (ip[i := f ! 0, i + 1 := f ! 1, i + 2 := f ! 2, i + 3 := f ! 3]) ellipsis))
          else
            (let ip' = ip[i := ucast (drop_bit 8 acc), i + 1 := ucast acc] in
             case drop off s of
               [] \<Rightarrow> Break [] (i + 2) ip' ellipsis
             | c # rest \<Rightarrow>
                 if c \<noteq> CHR '':'' then Fail
                 else
                   (case rest of
                      [] \<Rightarrow> Fail
                    | c' # rest' \<Rightarrow>
                        if c' = CHR '':'' then
                          (if ellipsis \<noteq> None then Fail
                           else if rest' = [] then Break [] (i + 2) ip' (Some (i + 2))
                           else Continue rest' ip' (Some (i + 2)))
                        else Continue rest ip' ellipsis)))"

text \<open>The loop: it gives the state in which it is left, or \<open>None\<close> for an error.\<close>

function parseIPv6Loop ::
  "string \<Rightarrow> nat \<Rightarrow> byte list \<Rightarrow> nat option \<Rightarrow> (string \<times> nat \<times> byte list \<times> nat option) option" where
  "parseIPv6Loop s i ip ellipsis =
     (if \<not> i < 16 then Some (s, i, ip, ellipsis)
      else
        (if is_Continue (parseIPv6Round s i ip ellipsis) then
           parseIPv6Loop (contRest (parseIPv6Round s i ip ellipsis)) (i + 2)
             (contArray (parseIPv6Round s i ip ellipsis))
             (contEllipsis (parseIPv6Round s i ip ellipsis))
         else
           (case parseIPv6Round s i ip ellipsis of
              Break s' i' ip' ellipsis' \<Rightarrow> Some (s', i', ip', ellipsis')
            | _ \<Rightarrow> None)))"
  by pat_completeness auto
termination
  by (relation "measure (\<lambda>(s, i, ip, ellipsis). 16 - i)") auto

text \<open>The expansion of the ellipsis: the \<open>i - ellipsis\<close> bytes behind it move up by
  \<open>n = 16 - i\<close>, from the last one down, and the gap is cleared.\<close>

definition expandEllipsis :: "byte list \<Rightarrow> nat \<Rightarrow> nat \<Rightarrow> byte list" where
  "expandEllipsis ip i ellipsis =
     (let n = 16 - i;
          moved = fold (\<lambda>j a. a[j + n := a ! j]) (rev [ellipsis..<i]) ip
      in fold (\<lambda>k a. a[k := 0]) [ellipsis..<ellipsis + n] moved)"

text \<open>\<open>netip.parseIPv6\<close> on a string without a zone. It gives the 16 bytes of the address.\<close>

definition parseIPv6 :: "string \<Rightarrow> byte list option" where
  "parseIPv6 s0 =
     (let lead = (length s0 \<ge> 2 \<and> s0 ! 0 = CHR '':'' \<and> s0 ! 1 = CHR '':'');
          s = (if lead then drop 2 s0 else s0);
          ellipsis = (if lead then Some 0 else None)
      in if lead \<and> s = [] then Some (replicate 16 0)
         else
           (case parseIPv6Loop s 0 (replicate 16 0) ellipsis of
              None \<Rightarrow> None
            | Some (s', i, ip, ellipsis') \<Rightarrow>
                if s' \<noteq> [] then None
                else if i < 16 then
                  (case ellipsis' of
                     None \<Rightarrow> None
                   | Some e \<Rightarrow> Some (expandEllipsis ip i e))
                else if ellipsis' \<noteq> None then None
                else Some ip))"

text \<open>
  A \<open>netip.Addr\<close> without a zone: four bytes (\<open>Is4\<close>) or sixteen. \<open>ParseAddr\<close> is
  \<open>netip.ParseAddr\<close> together with the test \<open>ip.Zone() != ""\<close> that both of its callers
  here, \<open>net.ParseIP\<close> and \<open>net.ParseCIDR\<close>, make: the first of the bytes \<open>.\<close>, \<open>:\<close>, \<open>%\<close>
  decides between the two parsers, and a string that has a zone gives \<open>None\<close>, whether
  \<open>parseIPv6\<close> takes it or not.
\<close>

datatype Addr = Addr4 "byte list" | Addr6 "byte list"

definition ParseAddr :: "string \<Rightarrow> Addr option" where
  "ParseAddr s =
     (case List.find (\<lambda>c. c = CHR ''.'' \<or> c = CHR '':'' \<or> c = CHR ''%'') s of
        None \<Rightarrow> None
      | Some c \<Rightarrow>
          if c = CHR ''.'' then map_option Addr4 (parseIPv4Fields s)
          else if c = CHR '':'' then
            (if CHR ''%'' \<in> set s then None else map_option Addr6 (parseIPv6 s))
          else None)"

definition v4InV6Prefix :: "byte list" where
  "v4InV6Prefix = [0, 0, 0, 0, 0, 0, 0, 0, 0, 0, 0xff, 0xff]"

text \<open>\<open>Addr.As16\<close> and \<open>Addr.BitLen\<close>.\<close>

fun As16 :: "Addr \<Rightarrow> byte list" where
  "As16 (Addr4 f) = v4InV6Prefix @ f"
| "As16 (Addr6 a) = a"

fun BitLen :: "Addr \<Rightarrow> int" where
  "BitLen (Addr4 f) = 32"
| "BitLen (Addr6 a) = 128"

text \<open>\<open>net.ParseIP\<close>: the 16-byte form of the address, \<open>None\<close> for Go's \<open>nil\<close>.\<close>

definition ParseIP :: "string \<Rightarrow> byte list option" where
  "ParseIP s = map_option As16 (ParseAddr s)"

text \<open>Go's \<open>error\<close> values that occur: \<open>errors.New(text)\<close>, \<open>*net.ParseError\<close> with its
  type and text, \<open>*net.AddrError\<close> with its reason and address.\<close>

datatype error =
    ErrorString string
  | ParseError string string
  | AddrError string string

text \<open>\<open>net.dtoi\<close>: the decimal number that starts the string, the number of bytes it takes,
  and whether there is one below \<open>big = 0xFFFFFF\<close>.\<close>

fun dtoiLoop :: "int \<Rightarrow> nat \<Rightarrow> string \<Rightarrow> int \<times> nat \<times> bool" where
  "dtoiLoop n i [] = (if i = 0 then (0, 0, False) else (n, i, True))"
| "dtoiLoop n i (c # cs) =
     (if isDigit c then
        (if n * 10 + (of_char c - 48) \<ge> 0xFFFFFF then (0xFFFFFF, i, False)
         else dtoiLoop (n * 10 + (of_char c - 48)) (i + 1) cs)
      else if i = 0 then (0, 0, False)
      else (n, i, True))"

definition dtoi :: "string \<Rightarrow> int \<times> nat \<times> bool" where
  "dtoi s = dtoiLoop 0 0 s"

text \<open>\<open>net.CIDRMask(ones, bits)\<close>: \<open>bits / 8\<close> bytes, the first \<open>ones\<close> bits set; the
  empty list is Go's \<open>nil\<close>. The loop runs over the \<open>l\<close> bytes with the number \<open>n\<close> of
  ones that are left.\<close>

fun cidrMaskLoop :: "nat \<Rightarrow> nat \<Rightarrow> byte list" where
  "cidrMaskLoop 0 n = []"
| "cidrMaskLoop (Suc l) n =
     (if n \<ge> 8 then 0xff # cidrMaskLoop l (n - 8)
      else NOT (drop_bit n 0xff) # cidrMaskLoop l 0)"

definition CIDRMask :: "int \<Rightarrow> int \<Rightarrow> byte list" where
  "CIDRMask ones bits =
     (if bits \<noteq> 32 \<and> bits \<noteq> 128 then []
      else if ones < 0 \<or> ones > bits then []
      else cidrMaskLoop (nat (bits div 8)) (nat ones))"

text \<open>\<open>IP.To4\<close>: the four bytes of an IPv4 address, also when it is given in its 16-byte
  form \<open>::ffff:a.b.c.d\<close>; \<open>None\<close> is Go's \<open>nil\<close>.\<close>

definition To4 :: "byte list \<Rightarrow> byte list option" where
  "To4 ip =
     (if length ip = 4 then Some ip
      else if length ip = 16 \<and> list_all (\<lambda>b. b = 0) (take 10 ip) \<and> ip ! 10 = 0xff \<and> ip ! 11 = 0xff
        then Some (drop 12 ip)
      else None)"

text \<open>\<open>IP.Mask\<close>; the empty list is Go's \<open>nil\<close>.\<close>

definition Mask :: "byte list \<Rightarrow> byte list \<Rightarrow> byte list" where
  "Mask ip0 mask0 =
     (let mask = (if length mask0 = 16 \<and> length ip0 = 4 \<and> list_all (\<lambda>b. b = 0xff) (take 12 mask0)
                  then drop 12 mask0 else mask0);
          ip = (if length mask = 4 \<and> length ip0 = 16 \<and> take 12 ip0 = v4InV6Prefix
                then drop 12 ip0 else ip0)
      in if length ip \<noteq> length mask then []
         else map (\<lambda>i. ip ! i AND mask ! i) [0..<length ip])"

text \<open>A \<open>net.IPNet\<close>: the network number and the mask.\<close>

record IPNet =
  IP :: "byte list"
  IPMask :: "byte list"

text \<open>\<open>net.ParseCIDR\<close>: the address, the network (\<open>None\<close> is the \<open>nil\<close> pointer) and the
  error.\<close>

definition ParseCIDR :: "string \<Rightarrow> byte list option \<times> IPNet option \<times> error option" where
  "ParseCIDR s =
     (case IndexByteString s (CHR ''/'') of
        None \<Rightarrow> (None, None, Some (ParseError ''CIDR address'' s))
      | Some i \<Rightarrow>
          (case ParseAddr (take i s) of
             None \<Rightarrow> (None, None, Some (ParseError ''CIDR address'' s))
           | Some ipAddr \<Rightarrow>
               (case dtoi (drop (i + 1) s) of
                  (n, j, ok) \<Rightarrow>
                    if \<not> ok \<or> j \<noteq> length (drop (i + 1) s) \<or> n < 0 \<or> n > BitLen ipAddr
                    then (None, None, Some (ParseError ''CIDR address'' s))
                    else
                      (Some (As16 ipAddr),
                       Some \<lparr>IP = Mask (As16 ipAddr) (CIDRMask n (BitLen ipAddr)),
                             IPMask = CIDRMask n (BitLen ipAddr)\<rparr>,
                       None))))"

text \<open>\<open>net.networkNumberAndMask\<close>; the empty lists are Go's \<open>nil, nil\<close>.\<close>

definition networkNumberAndMask :: "IPNet \<Rightarrow> byte list \<times> byte list" where
  "networkNumberAndMask n =
     (let ip = (case To4 (IP n) of Some x \<Rightarrow> x | None \<Rightarrow> IP n) in
      if To4 (IP n) = None \<and> length ip \<noteq> 16 then ([], [])
      else if length (IPMask n) = 4 then (if length ip \<noteq> 4 then ([], []) else (ip, IPMask n))
      else if length (IPMask n) = 16 then
        (if length ip = 4 then (ip, drop 12 (IPMask n)) else (ip, IPMask n))
      else ([], []))"

text \<open>\<open>(*IPNet).Contains\<close>: an address in its 16-byte IPv4 form is compared as the IPv4
  address; the lengths must agree, and then every byte of the address and of the network
  number must agree under the mask.\<close>

definition IPNet_Contains :: "IPNet \<Rightarrow> byte list \<Rightarrow> bool" where
  "IPNet_Contains n ip0 =
     (case networkNumberAndMask n of
        (nn, m) \<Rightarrow>
          (let ip = (case To4 ip0 of Some x \<Rightarrow> x | None \<Rightarrow> ip0) in
           if length ip \<noteq> length nn then False
           else list_all (\<lambda>i. nn ! i AND m ! i = ip ! i AND m ! i) [0..<length ip]))"

text \<open>
  \<open>net.SplitHostPort\<close>: host, port and error. The port starts behind the last colon; a host
  in brackets must end just before that colon; a host without brackets has no colon; no
  other bracket may occur. With an error, host and port are empty.
\<close>

definition SplitHostPort :: "string \<Rightarrow> string \<times> string \<times> error option" where
  "SplitHostPort hostport =
     (case LastIndexByteString hostport (CHR '':'') of
        None \<Rightarrow> ([], [], Some (AddrError ''missing port in address'' hostport))
      | Some i \<Rightarrow>
          if hostport ! 0 = CHR ''['' then
            (case IndexByteString hostport (CHR '']'') of
               None \<Rightarrow> ([], [], Some (AddrError ''missing ']' in address'' hostport))
             | Some close \<Rightarrow>
                 if close + 1 = length hostport then
                   ([], [], Some (AddrError ''missing port in address'' hostport))
                 else if close + 1 \<noteq> i then
                   (if hostport ! (close + 1) = CHR '':''
                    then ([], [], Some (AddrError ''too many colons in address'' hostport))
                    else ([], [], Some (AddrError ''missing port in address'' hostport)))
                 else if IndexByteString (drop 1 hostport) (CHR ''['') \<noteq> None then
                   ([], [], Some (AddrError ''unexpected '[' in address'' hostport))
                 else if IndexByteString (drop (close + 1) hostport) (CHR '']'') \<noteq> None then
                   ([], [], Some (AddrError ''unexpected ']' in address'' hostport))
                 else (take (close - 1) (drop 1 hostport), drop (i + 1) hostport, None))
          else if IndexByteString (take i hostport) (CHR '':'') \<noteq> None then
            ([], [], Some (AddrError ''too many colons in address'' hostport))
          else if IndexByteString hostport (CHR ''['') \<noteq> None then
            ([], [], Some (AddrError ''unexpected '[' in address'' hostport))
          else if IndexByteString hostport (CHR '']'') \<noteq> None then
            ([], [], Some (AddrError ''unexpected ']' in address'' hostport))
          else (take i hostport, drop (i + 1) hostport, None))"

section \<open>Package net/http: headers and requests\<close>

text \<open>\<open>textproto.validHeaderFieldByte\<close>: the bytes of a token of RFC 7230.\<close>

definition validHeaderFieldByte :: "char \<Rightarrow> bool" where
  "validHeaderFieldByte c =
     (isDigit c
      \<or> (65 \<le> (of_char c :: nat) \<and> (of_char c :: nat) \<le> 90)
      \<or> (97 \<le> (of_char c :: nat) \<and> (of_char c :: nat) \<le> 122)
      \<or> c \<in> set [CHR ''!'', CHR ''#'', CHR ''$'', CHR ''%'', CHR ''&'', CHR 0x27, CHR ''*'', CHR ''+'',
                  CHR ''-'', CHR ''.'', CHR ''^'', CHR ''_'', CHR 0x60, CHR ''|'', CHR ''~''])"

text \<open>The loop of \<open>textproto.canonicalMIMEHeaderKey\<close>: the first letter and every letter
  behind a hyphen in upper case, the other letters in lower case.\<close>

fun canonicalMIMEHeaderKey :: "bool \<Rightarrow> string \<Rightarrow> string" where
  "canonicalMIMEHeaderKey upper [] = []"
| "canonicalMIMEHeaderKey upper (c # cs) =
     (if upper \<and> 97 \<le> (of_char c :: nat) \<and> (of_char c :: nat) \<le> 122 then
        char_of ((of_char c :: nat) - 32) # canonicalMIMEHeaderKey False cs
      else if \<not> upper \<and> 65 \<le> (of_char c :: nat) \<and> (of_char c :: nat) \<le> 90 then
        char_of ((of_char c :: nat) + 32) # canonicalMIMEHeaderKey False cs
      else c # canonicalMIMEHeaderKey (c = CHR ''-'') cs)"

text \<open>\<open>http.CanonicalHeaderKey\<close>: a key with a byte that is not a token byte is returned
  as it is.\<close>

definition CanonicalHeaderKey :: "string \<Rightarrow> string" where
  "CanonicalHeaderKey s =
     (if list_all validHeaderFieldByte s then canonicalMIMEHeaderKey True s else s)"

text \<open>An \<open>http.Header\<close> is a \<open>map[string][]string\<close>. Indexing an absent key gives the \<open>nil\<close>
  slice, here the empty list; \<open>Header.Get\<close> gives the first value under the canonical form
  of the key, and the empty string when there is none.\<close>

type_synonym Header = "string \<rightharpoonup> string list"

definition index :: "Header \<Rightarrow> string \<Rightarrow> string list" where
  "index h key = (case h key of None \<Rightarrow> [] | Some v \<Rightarrow> v)"

definition Get :: "Header \<Rightarrow> string \<Rightarrow> string" where
  "Get h key =
     (case index h (CanonicalHeaderKey key) of [] \<Rightarrow> [] | v # _ \<Rightarrow> v)"

text \<open>The two fields of an \<open>http.Request\<close> that \<open>FromRequest\<close> reads.\<close>

record Request =
  RemoteAddr :: string
  Header :: Header

section \<open>realip.go\<close>

definition xForwardedForHeader :: string where
  "xForwardedForHeader = CanonicalHeaderKey ''X-Forwarded-For''"

definition xRealIpHeader :: string where
  "xRealIpHeader = CanonicalHeaderKey ''X-Real-IP''"

definition forwardedHeader :: string where
  "forwardedHeader = CanonicalHeaderKey ''Forwarded''"

text \<open>The function \<open>init\<close> fills the package variable \<open>cidrs\<close> from the list
  \<open>maxCidrBlocks\<close>, dropping the error of \<open>net.ParseCIDR\<close>: an entry that did not parse
  would be the \<open>nil\<close> pointer, here \<open>None\<close>. Nothing else assigns to \<open>cidrs\<close>.\<close>

definition maxCidrBlocks :: "string list" where
  "maxCidrBlocks =
     [''127.0.0.1/8'', ''10.0.0.0/8'', ''172.16.0.0/12'', ''192.168.0.0/16'', ''169.254.0.0/16'',
      ''::1/128'', ''fc00::/7'', ''fe80::/10'']"

definition cidrs :: "IPNet option list" where
  "cidrs = map (\<lambda>maxCidrBlock. fst (snd (ParseCIDR maxCidrBlock))) maxCidrBlocks"

text \<open>A run of Go code ends with a value or with a panic; calling \<open>Contains\<close> on a \<open>nil\<close>
  \<open>*IPNet\<close> dereferences it.\<close>

datatype panic = NilPointerDereference

text \<open>The loop \<open>for i := range cidrs\<close> of \<open>isPrivateAddress\<close>, on the entries that are
  left.\<close>

fun containedIn :: "IPNet option list \<Rightarrow> byte list \<Rightarrow> panic + bool" where
  "containedIn [] ipAddress = Inr False"
| "containedIn (None # rest) ipAddress = Inl NilPointerDereference"
| "containedIn (Some cidr # rest) ipAddress =
     (if IPNet_Contains cidr ipAddress then Inr True else containedIn rest ipAddress)"

definition isPrivateAddress :: "string \<Rightarrow> panic + (bool \<times> error option)" where
  "isPrivateAddress address =
     (case ParseIP address of
        None \<Rightarrow> Inr (False, Some (ErrorString ''address is not valid''))
      | Some ipAddress \<Rightarrow>
          (case containedIn cidrs ipAddress of
             Inl p \<Rightarrow> Inl p
           | Inr b \<Rightarrow> Inr (b, None)))"

text \<open>The loops of \<open>FromRequest\<close> over \<open>X-Forwarded-For\<close>: the inner one over the pieces
  of one value, the outer one over the values. \<open>Some address\<close> is the \<open>return address\<close>
  inside the loop, \<open>None\<close> is the loop running to its end.\<close>

fun forwardedForPieces :: "string list \<Rightarrow> panic + string option" where
  "forwardedForPieces [] = Inr None"
| "forwardedForPieces (b # bs) =
     (case isPrivateAddress (TrimSpace b) of
        Inl p \<Rightarrow> Inl p
      | Inr (isPrivate, err) \<Rightarrow>
          if \<not> isPrivate \<and> err = None then Inr (Some (TrimSpace b))
          else forwardedForPieces bs)"

fun forwardedForValues :: "string list \<Rightarrow> panic + string option" where
  "forwardedForValues [] = Inr None"
| "forwardedForValues (a # as) =
     (case forwardedForPieces (Split a (CHR '','')) of
        Inl p \<Rightarrow> Inl p
      | Inr (Some address) \<Rightarrow> Inr (Some address)
      | Inr None \<Rightarrow> forwardedForValues as)"

text \<open>The address that the loop over \<open>Forwarded\<close> reads from the piece \<open>b\<close>, when \<open>b\<close>
  contains \<open>for\<close> and has exactly one \<open>=\<close>: the part behind \<open>=\<close> without the white space
  around it, then without its leading \<open>"\<close> and \<open>[\<close>, then without its trailing \<open>]\<close> and
  \<open>"\<close>.\<close>

definition forwardedAddress :: "string \<Rightarrow> string option" where
  "forwardedAddress b =
     (if Contains b ''for'' then
        (if length (Split b (CHR ''='')) = 2 then
           Some (TrimRight (TrimLeft (TrimSpace (Split b (CHR ''='') ! 1)) [CHR 0x22, CHR ''[''])
                   [CHR '']'', CHR 0x22])
         else None)
      else None)"

fun forwardedPieces :: "string list \<Rightarrow> panic + string option" where
  "forwardedPieces [] = Inr None"
| "forwardedPieces (b # bs) =
     (case forwardedAddress b of
        None \<Rightarrow> forwardedPieces bs
      | Some address \<Rightarrow>
          (case isPrivateAddress address of
             Inl p \<Rightarrow> Inl p
           | Inr (isPrivate, err) \<Rightarrow>
               if \<not> isPrivate \<and> err = None then Inr (Some address)
               else forwardedPieces bs))"

fun forwardedGroups :: "string list \<Rightarrow> panic + string option" where
  "forwardedGroups [] = Inr None"
| "forwardedGroups (a # as) =
     (case forwardedPieces (Split a (CHR '','')) of
        Inl p \<Rightarrow> Inl p
      | Inr (Some address) \<Rightarrow> Inr (Some address)
      | Inr None \<Rightarrow> forwardedGroups as)"

text \<open>\<open>FromRequest\<close>: the string returned, or the panic.\<close>

definition FromRequest :: "Request \<Rightarrow> panic + string" where
  "FromRequest r =
     (let xRealIP = Get (Header r) xRealIpHeader;
          xForwardedFor = index (Header r) xForwardedForHeader;
          forwarded = Get (Header r) forwardedHeader
      in if xRealIP = [] \<and> length xForwardedFor = 0 \<and> forwarded = [] then
           (if ContainsRune (RemoteAddr r) (CHR '':'') then Inr (fst (SplitHostPort (RemoteAddr r)))
            else Inr (RemoteAddr r))
         else
           (case forwardedForValues xForwardedFor of
              Inl p \<Rightarrow> Inl p
            | Inr (Some address) \<Rightarrow> Inr address
            | Inr None \<Rightarrow>
                (case forwardedGroups (Split forwarded (CHR '';'')) of
                   Inl p \<Rightarrow> Inl p
                 | Inr (Some address) \<Rightarrow> Inr address
                 | Inr None \<Rightarrow> Inr xRealIP)))"


section \<open>The notions of the specification\<close>

text \<open>The Reserved-Block Table of the specification, as networks: the prefix under its
  mask, and the mask.\<close>

definition reservedNets :: "IPNet list" where
  "reservedNets =
     [\<lparr>IP = [127, 0, 0, 0], IPMask = [255, 0, 0, 0]\<rparr>,
      \<lparr>IP = [10, 0, 0, 0], IPMask = [255, 0, 0, 0]\<rparr>,
      \<lparr>IP = [172, 16, 0, 0], IPMask = [255, 240, 0, 0]\<rparr>,
      \<lparr>IP = [192, 168, 0, 0], IPMask = [255, 255, 0, 0]\<rparr>,
      \<lparr>IP = [169, 254, 0, 0], IPMask = [255, 255, 0, 0]\<rparr>,
      \<lparr>IP = [0, 0, 0, 0, 0, 0, 0, 0, 0, 0, 0, 0, 0, 0, 0, 1],
       IPMask = [255, 255, 255, 255, 255, 255, 255, 255, 255, 255, 255, 255, 255, 255, 255, 255]\<rparr>,
      \<lparr>IP = [252, 0, 0, 0, 0, 0, 0, 0, 0, 0, 0, 0, 0, 0, 0, 0],
       IPMask = [254, 0, 0, 0, 0, 0, 0, 0, 0, 0, 0, 0, 0, 0, 0, 0]\<rparr>,
      \<lparr>IP = [254, 128, 0, 0, 0, 0, 0, 0, 0, 0, 0, 0, 0, 0, 0, 0],
       IPMask = [255, 192, 0, 0, 0, 0, 0, 0, 0, 0, 0, 0, 0, 0, 0, 0]\<rparr>]"







text \<open>A candidate is public when the classifier parses it and finds it in no reserved
  block.\<close>

definition isPublic :: "string \<Rightarrow> bool" where
  "isPublic address = (isPrivateAddress address = Inr (False, None))"

text \<open>The tokens of \<open>X-Forwarded-For\<close> in the order of the scan: the values in the order
  received, the comma-separated tokens of each value from left to right, each one without
  the white space around it.\<close>

definition forwardedForTokens :: "string list \<Rightarrow> string list" where
  "forwardedForTokens xForwardedFor =
     concat (map (\<lambda>a. map TrimSpace (Split a (CHR '',''))) xForwardedFor)"

text \<open>The pieces of \<open>Forwarded\<close>: split on \<open>;\<close>, then on \<open>,\<close>; and the candidate addresses
  that the source reads from them, in that order.\<close>

definition forwardedPiecesOf :: "string \<Rightarrow> string list" where
  "forwardedPiecesOf forwarded =
     concat (map (\<lambda>a. Split a (CHR '','')) (Split forwarded (CHR '';'')))"

definition forwardedCandidates :: "string \<Rightarrow> string list" where
  "forwardedCandidates forwarded = List.map_filter forwardedAddress (forwardedPiecesOf forwarded)"

text \<open>The three header sources are absent or empty.\<close>

definition allAbsent :: "Request \<Rightarrow> bool" where
  "allAbsent r =
     (Get (Header r) xRealIpHeader = [] \<and> index (Header r) xForwardedForHeader = []
      \<and> Get (Header r) forwardedHeader = [])"

text \<open>
  The reading of a piece of \<open>Forwarded\<close> in the words of the specification: of the part
  behind \<open>=\<close>, exactly one leading \<open>"\<close> or \<open>[\<close> and exactly one trailing \<open>]\<close> or \<open>"\<close> is
  removed. It is compared with \<open>forwardedAddress\<close> of the source below.
\<close>

definition stripOneLeading :: "string \<Rightarrow> string" where
  "stripOneLeading s =
     (case s of [] \<Rightarrow> [] | c # cs \<Rightarrow> if c = CHR 0x22 \<or> c = CHR ''['' then cs else s)"

definition stripOneTrailing :: "string \<Rightarrow> string" where
  "stripOneTrailing s =
     (case rev s of [] \<Rightarrow> [] | c # cs \<Rightarrow> if c = CHR '']'' \<or> c = CHR 0x22 then rev cs else s)"

definition forwardedAddressOneLayer :: "string \<Rightarrow> string option" where
  "forwardedAddressOneLayer b =
     (if Contains b ''for'' \<and> length (Split b (CHR ''='')) = 2
      then Some (stripOneTrailing (stripOneLeading (Split b (CHR ''='') ! 1)))
      else None)"

definition forwardedCandidatesOneLayer :: "string \<Rightarrow> string list" where
  "forwardedCandidatesOneLayer forwarded =
     List.map_filter forwardedAddressOneLayer (forwardedPiecesOf forwarded)"

text \<open>The remote address without its port in the words of the specification: split at the
  last colon, and unchanged when there is no colon.\<close>

definition stripPortAtLastColon :: "string \<Rightarrow> string" where
  "stripPortAtLastColon remoteAddr =
     (case LastIndexByteString remoteAddr (CHR '':'') of None \<Rightarrow> remoteAddr | Some i \<Rightarrow> take i remoteAddr)"

section \<open>Requests of the test suite\<close>

text \<open>\<open>Header.Set\<close> and \<open>Header.Add\<close>, and the helper \<open>newRequest\<close> of
  \<open>realip_test.go\<close>, which builds the requests of \<open>TestRealIP\<close>.\<close>

definition Set :: "Header \<Rightarrow> string \<Rightarrow> string \<Rightarrow> Header" where
  "Set h key v = h(CanonicalHeaderKey key \<mapsto> [v])"

definition Add :: "Header \<Rightarrow> string \<Rightarrow> string \<Rightarrow> Header" where
  "Add h key v = h(CanonicalHeaderKey key \<mapsto> index h (CanonicalHeaderKey key) @ [v])"

definition newRequest :: "string \<Rightarrow> string \<Rightarrow> bool \<Rightarrow> string list \<Rightarrow> Request" where
  "newRequest remoteAddr xRealIP forwarded xForwardedFor =
     \<lparr>RemoteAddr = remoteAddr,
      Header =
        fold (\<lambda>address h. Add h (if forwarded then ''Forwarded'' else ''X-Forwarded-For'') address)
          xForwardedFor
          (if xRealIP \<noteq> [] then Set Map.empty ''X-Real-IP'' xRealIP else Map.empty)\<rparr>"

section \<open>Properties\<close>

subsection \<open>The table and the header keys\<close>

lemma cidrs_table: "cidrs = map Some reservedNets"
  by code_simp

lemma header_keys:
  "xForwardedForHeader = ''X-Forwarded-For''" "xRealIpHeader = ''X-Real-Ip''"
  "forwardedHeader = ''Forwarded''"
  by code_simp+

lemma Get_keys:
  "Get h xRealIpHeader = (case index h ''X-Real-Ip'' of [] \<Rightarrow> [] | v # _ \<Rightarrow> v)"
  "Get h forwardedHeader = (case index h ''Forwarded'' of [] \<Rightarrow> [] | v # _ \<Rightarrow> v)"
proof -
  have "CanonicalHeaderKey ''X-Real-Ip'' = ''X-Real-Ip''" by code_simp
  then show "Get h xRealIpHeader = (case index h ''X-Real-Ip'' of [] \<Rightarrow> [] | v # _ \<Rightarrow> v)"
    by (simp add: Get_def header_keys)
  have "CanonicalHeaderKey ''Forwarded'' = ''Forwarded''" by code_simp
  then show "Get h forwardedHeader = (case index h ''Forwarded'' of [] \<Rightarrow> [] | v # _ \<Rightarrow> v)"
    by (simp add: Get_def header_keys)
qed

lemma find_append:
  "List.find P (xs @ ys) = (case List.find P xs of None \<Rightarrow> List.find P ys | Some x \<Rightarrow> Some x)"
  by (induction xs) simp_all

lemma map_filter_append:
  "List.map_filter f (xs @ ys) = List.map_filter f xs @ List.map_filter f ys"
  by (simp add: List.map_filter_def)

lemma containedIn_Some:
  "containedIn (map Some nets) ip = Inr (list_ex (\<lambda>cidr. IPNet_Contains cidr ip) nets)"
  by (induction nets) simp_all

lemma isPrivateAddress_eq:
  "isPrivateAddress address =
     Inr (case ParseIP address of
            None \<Rightarrow> (False, Some (ErrorString ''address is not valid''))
          | Some ip \<Rightarrow> (list_ex (\<lambda>cidr. IPNet_Contains cidr ip) reservedNets, None))"
  by (simp add: isPrivateAddress_def cidrs_table containedIn_Some split: option.split)

lemma isPrivateAddress_Inr: "\<exists>p e. isPrivateAddress address = Inr (p, e)"
  using isPrivateAddress_eq [of address] by (metis surj_pair)

lemma forwardedForPieces_find:
  "forwardedForPieces bs = Inr (List.find isPublic (map TrimSpace bs))"
proof (induction bs)
  case Nil
  show ?case by simp
next
  case (Cons b bs)
  obtain p e where pe: "isPrivateAddress (TrimSpace b) = Inr (p, e)"
    using isPrivateAddress_Inr by blast
  with Cons show ?case
    by (auto simp: isPublic_def)
qed

lemma forwardedForValues_find:
  "forwardedForValues xs = Inr (List.find isPublic (forwardedForTokens xs))"
proof (induction xs)
  case Nil
  show ?case by (simp add: forwardedForTokens_def)
next
  case (Cons a as)
  then show ?case
    by (cases "List.find isPublic (map TrimSpace (Split a (CHR '','')))")
       (simp_all add: forwardedForTokens_def forwardedForPieces_find find_append)
qed

lemma forwardedPieces_find:
  "forwardedPieces bs = Inr (List.find isPublic (List.map_filter forwardedAddress bs))"
proof (induction bs)
  case Nil
  show ?case by (simp add: List.map_filter_simps)
next
  case (Cons b bs)
  show ?case
  proof (cases "forwardedAddress b")
    case None
    with Cons show ?thesis by (simp add: List.map_filter_simps)
  next
    case (Some address)
    obtain p e where pe: "isPrivateAddress address = Inr (p, e)"
      using isPrivateAddress_Inr by blast
    with Cons Some show ?thesis
      by (auto simp: isPublic_def List.map_filter_simps)
  qed
qed

lemma forwardedGroups_find':
  "forwardedGroups gs =
     Inr (List.find isPublic (List.map_filter forwardedAddress (concat (map (\<lambda>a. Split a (CHR '','')) gs))))"
proof (induction gs)
  case Nil
  show ?case by (simp add: List.map_filter_simps)
next
  case (Cons a as)
  then show ?case
    by (cases "List.find isPublic (List.map_filter forwardedAddress (Split a (CHR '','')))")
       (simp_all add: forwardedPieces_find find_append map_filter_append)
qed

lemma forwardedGroups_find:
  "forwardedGroups (Split forwarded (CHR '';'')) = Inr (List.find isPublic (forwardedCandidates forwarded))"
  by (simp add: forwardedGroups_find' forwardedCandidates_def forwardedPiecesOf_def)

lemma FromRequest_eq:
  "FromRequest r =
     Inr (if allAbsent r then
            (if CHR '':'' \<in> set (RemoteAddr r) then fst (SplitHostPort (RemoteAddr r))
             else RemoteAddr r)
          else
            (case List.find isPublic (forwardedForTokens (index (Header r) xForwardedForHeader)) of
               Some address \<Rightarrow> address
             | None \<Rightarrow>
                 (case List.find isPublic (forwardedCandidates (Get (Header r) forwardedHeader)) of
                    Some address \<Rightarrow> address
                  | None \<Rightarrow> Get (Header r) xRealIpHeader)))"
  by (simp add: FromRequest_def allAbsent_def forwardedForValues_find forwardedGroups_find
      ContainsRune_def Let_def split: option.split)


subsection \<open>Splitting host and port\<close>

lemma LastIndexByteString_split:
  assumes "c \<notin> set port"
  shows "LastIndexByteString (host @ c # port) c = Some (length host)"
proof -
  have "takeWhile (\<lambda>x. x \<noteq> c) (rev port @ c # rev host) = rev port"
    using assms by (subst takeWhile_append2) auto
  then show ?thesis
    by (simp add: LastIndexByteString_def)
qed

lemma IndexByteString_None: "IndexByteString s c = None \<longleftrightarrow> c \<notin> set s"
  by (simp add: IndexByteString_def)

lemma SplitHostPort_plain:
  assumes "CHR '':'' \<notin> set host" "CHR '':'' \<notin> set port"
    and "CHR ''['' \<notin> set host" "CHR ''['' \<notin> set port"
    and "CHR '']'' \<notin> set host" "CHR '']'' \<notin> set port"
  shows "SplitHostPort (host @ CHR '':'' # port) = (host, port, None)"
proof -
  have first: "(host @ CHR '':'' # port) ! 0 \<noteq> CHR ''[''"
    using assms(3) by (cases host) auto
  show ?thesis
    using assms first
    by (simp add: SplitHostPort_def LastIndexByteString_split IndexByteString_None)
qed

lemma SplitHostPort_error_host:
  "snd (snd (SplitHostPort s)) \<noteq> None \<Longrightarrow> fst (SplitHostPort s) = []"
  by (auto simp: SplitHostPort_def split: option.splits if_splits)

lemma stripPortAtLastColon_split:
  "c = CHR '':'' \<Longrightarrow> c \<notin> set port \<Longrightarrow> stripPortAtLastColon (host @ c # port) = host"
  by (simp add: stripPortAtLastColon_def LastIndexByteString_split)

lemma isPublic_nonempty: "isPublic address \<Longrightarrow> address \<noteq> []"
proof
  assume "isPublic address" "address = []"
  moreover have "ParseIP [] = None" by code_simp
  ultimately show False
    by (simp add: isPublic_def isPrivateAddress_eq)
qed

lemma find_isPublic_nonempty: "List.find isPublic xs = Some address \<Longrightarrow> address \<noteq> []"
  by (auto simp: find_Some_iff dest: isPublic_nonempty)

subsection \<open>Containment in the reserved blocks\<close>















subsection \<open>The classifier\<close>

text \<open>
  Claim C6. For every input string, \<open>isPrivateAddress\<close> returns the error together with
  \<open>false\<close> when the string does not parse as an IP literal; when it parses, there is no
  error and the result is \<open>true\<close> exactly when some entry of the table contains the
  address. The table that \<open>init\<close> builds is the Reserved-Block Table, none of its entries is
  \<open>nil\<close>, and the loop is \<open>containedIn\<close>, which returns \<open>true\<close> at the first entry that
  contains the address and \<open>false\<close> behind the last one.
\<close>

theorem isPrivateAddress_classifies:
  "cidrs = map Some reservedNets
   \<and> (ParseIP address = None \<longrightarrow>
        isPrivateAddress address = Inr (False, Some (ErrorString ''address is not valid'')))
   \<and> (\<forall>ip. ParseIP address = Some ip \<longrightarrow>
        isPrivateAddress address =
          Inr (list_ex (\<lambda>cidr. IPNet_Contains cidr ip) reservedNets, None))"
  by (simp add: isPrivateAddress_eq cidrs_table)

text \<open>Claim C6 at a string that is no address, at a reserved address and at a public one.\<close>

theorem isPrivateAddress_classifies_witness:
  "ParseIP ''example.com'' = None
   \<and> isPrivateAddress ''example.com'' = Inr (False, Some (ErrorString ''address is not valid''))
   \<and> ParseIP ''10.0.0.0'' = Some [0, 0, 0, 0, 0, 0, 0, 0, 0, 0, 0xff, 0xff, 10, 0, 0, 0]
   \<and> isPrivateAddress ''10.0.0.0'' = Inr (True, None)
   \<and> ParseIP ''147.12.56.11'' = Some [0, 0, 0, 0, 0, 0, 0, 0, 0, 0, 0xff, 0xff, 147, 12, 56, 11]
   \<and> isPrivateAddress ''147.12.56.11'' = Inr (False, None)"
proof -
  have n: "ParseIP ''example.com'' = None"
    by code_simp
  have p: "ParseIP ''10.0.0.0'' = Some [0, 0, 0, 0, 0, 0, 0, 0, 0, 0, 0xff, 0xff, 10, 0, 0, 0]"
    by code_simp
  have q: "ParseIP ''147.12.56.11'' = Some [0, 0, 0, 0, 0, 0, 0, 0, 0, 0, 0xff, 0xff, 147, 12, 56, 11]"
    by code_simp
  have inP: "list_ex (\<lambda>cidr. IPNet_Contains cidr [0, 0, 0, 0, 0, 0, 0, 0, 0, 0, 0xff, 0xff, 10, 0, 0, 0])
      reservedNets"
    by code_simp
  have outQ: "\<not> list_ex (\<lambda>cidr. IPNet_Contains cidr [0, 0, 0, 0, 0, 0, 0, 0, 0, 0, 0xff, 0xff, 147, 12, 56, 11])
      reservedNets"
    by code_simp
  from isPrivateAddress_classifies [of "''example.com''"] n
  have 1: "isPrivateAddress ''example.com'' = Inr (False, Some (ErrorString ''address is not valid''))"
    by blast
  from isPrivateAddress_classifies [of "''10.0.0.0''"] p inP
  have 2: "isPrivateAddress ''10.0.0.0'' = Inr (True, None)"
    by simp
  from isPrivateAddress_classifies [of "''147.12.56.11''"] q outQ
  have 3: "isPrivateAddress ''147.12.56.11'' = Inr (False, None)"
    by simp
  from n p q 1 2 3 show ?thesis by blast
qed



subsection \<open>The resolver\<close>



text \<open>
  Claim C7. When the headers are not all absent, and neither the scan of
  \<open>X-Forwarded-For\<close> nor the scan of \<open>Forwarded\<close> finds a public address, \<open>FromRequest\<close>
  returns the value of \<open>X-Real-IP\<close> as it is, which is the empty string when that header
  is absent.
\<close>

theorem FromRequest_real_ip_fallback:
  assumes "\<not> allAbsent r"
    and "List.find isPublic (forwardedForTokens (index (Header r) xForwardedForHeader)) = None"
    and "List.find isPublic (forwardedCandidates (Get (Header r) forwardedHeader)) = None"
  shows "FromRequest r = Inr (Get (Header r) xRealIpHeader)"
  using assms by (simp add: FromRequest_eq)

text \<open>Claim C7 with and without a value of \<open>X-Real-IP\<close>.\<close>

theorem FromRequest_real_ip_fallback_witness:
  "\<not> allAbsent (newRequest ''13.182.55.11:8080'' ''203.0.113.7'' False [''127.0.0.0, 10.1.2.3''])
   \<and> FromRequest (newRequest ''13.182.55.11:8080'' ''203.0.113.7'' False [''127.0.0.0, 10.1.2.3''])
       = Inr ''203.0.113.7''
   \<and> \<not> allAbsent (newRequest ''13.182.55.11:8080'' [] True [''for=192.168.1.1;proto=https''])
   \<and> FromRequest (newRequest ''13.182.55.11:8080'' [] True [''for=192.168.1.1;proto=https'']) = Inr []"
proof -
  let ?r = "newRequest ''13.182.55.11:8080'' ''203.0.113.7'' False [''127.0.0.0, 10.1.2.3'']"
  let ?q = "newRequest ''13.182.55.11:8080'' [] True [''for=192.168.1.1;proto=https'']"
  have r1: "\<not> allAbsent ?r" by code_simp
  have r2: "List.find isPublic (forwardedForTokens (index (Header ?r) xForwardedForHeader)) = None"
    by code_simp
  have r3: "List.find isPublic (forwardedCandidates (Get (Header ?r) forwardedHeader)) = None"
    by code_simp
  have r4: "Get (Header ?r) xRealIpHeader = ''203.0.113.7''" by code_simp
  have q1: "\<not> allAbsent ?q" by code_simp
  have q2: "List.find isPublic (forwardedForTokens (index (Header ?q) xForwardedForHeader)) = None"
    by code_simp
  have q3: "List.find isPublic (forwardedCandidates (Get (Header ?q) forwardedHeader)) = None"
    by code_simp
  have q4: "Get (Header ?q) xRealIpHeader = []" by code_simp
  from FromRequest_real_ip_fallback [OF r1 r2 r3] r4 have "FromRequest ?r = Inr ''203.0.113.7''"
    by simp
  moreover from FromRequest_real_ip_fallback [OF q1 q2 q3] q4 have "FromRequest ?q = Inr []"
    by simp
  ultimately show ?thesis using r1 q1 by blast
qed

text \<open>
  Claim C1. When \<open>X-Forwarded-For\<close> has one or more values, the tokens are scanned value by
  value in the order received and from left to right inside a value, each one trimmed of
  white space, and \<open>FromRequest\<close> returns the first one that parses as an IP and is
  classified as not reserved.
\<close>

theorem FromRequest_forwarded_for_first_public:
  assumes "index (Header r) xForwardedForHeader \<noteq> []"
    and "List.find isPublic (forwardedForTokens (index (Header r) xForwardedForHeader)) = Some address"
  shows "FromRequest r = Inr address"
proof -
  from assms(1) have "\<not> allAbsent r"
    by (simp add: allAbsent_def)
  with assms(2) show ?thesis
    by (simp add: FromRequest_eq)
qed

text \<open>Claim C1 at two values of \<open>X-Forwarded-For\<close>, the second with three tokens.\<close>

theorem FromRequest_forwarded_for_first_public_witness:
  "index (Header (newRequest ''13.182.55.11:8080'' ''203.0.113.7'' False
       [''127.0.0.0'', ''unknown,  144.12.54.87 , 119.14.55.11''])) xForwardedForHeader \<noteq> []
   \<and> forwardedForTokens [''127.0.0.0'', ''unknown,  144.12.54.87 , 119.14.55.11'']
       = [''127.0.0.0'', ''unknown'', ''144.12.54.87'', ''119.14.55.11'']
   \<and> FromRequest (newRequest ''13.182.55.11:8080'' ''203.0.113.7'' False
       [''127.0.0.0'', ''unknown,  144.12.54.87 , 119.14.55.11'']) = Inr ''144.12.54.87''"
proof -
  let ?r = "newRequest ''13.182.55.11:8080'' ''203.0.113.7'' False
       [''127.0.0.0'', ''unknown,  144.12.54.87 , 119.14.55.11'']"
  have 1: "index (Header ?r) xForwardedForHeader \<noteq> []" by code_simp
  have 2: "List.find isPublic (forwardedForTokens (index (Header ?r) xForwardedForHeader))
     = Some ''144.12.54.87''" by code_simp
  have 3: "forwardedForTokens [''127.0.0.0'', ''unknown,  144.12.54.87 , 119.14.55.11'']
       = [''127.0.0.0'', ''unknown'', ''144.12.54.87'', ''119.14.55.11'']" by code_simp
  from FromRequest_forwarded_for_first_public [OF 1 2] 1 3 show ?thesis by blast
qed


text \<open>
  Claim C3 says that exactly one layer of \<open>"\<close> or \<open>[\<close> in front and of \<open>]\<close> or \<open>"\<close> behind
  is removed. The source calls \<open>strings.TrimLeft\<close> and \<open>strings.TrimRight\<close> with the
  cutsets \<open>"[\<close> and \<open>]"\<close>, which remove every such byte. For the header
  \<open>Forwarded: for="[2001:db8::1]",for=8.8.8.8\<close> the first public address read with one
  layer removed is \<open>8.8.8.8\<close>, since \<open>[2001:db8::1]\<close> does not parse; \<open>FromRequest\<close> returns
  \<open>2001:db8::1\<close>.
\<close>

theorem forwarded_one_layer_counterexample:
  "List.find isPublic (forwardedForTokens (index (Header (newRequest [] [] True
       [''for='' @ [CHR 0x22] @ ''[2001:db8::1]'' @ [CHR 0x22] @ '',for=8.8.8.8''])) xForwardedForHeader)) = None
   \<and> Get (Header (newRequest [] [] True
       [''for='' @ [CHR 0x22] @ ''[2001:db8::1]'' @ [CHR 0x22] @ '',for=8.8.8.8''])) forwardedHeader \<noteq> []
   \<and> List.find isPublic (forwardedCandidatesOneLayer (Get (Header (newRequest [] [] True
       [''for='' @ [CHR 0x22] @ ''[2001:db8::1]'' @ [CHR 0x22] @ '',for=8.8.8.8''])) forwardedHeader))
       = Some ''8.8.8.8''
   \<and> FromRequest (newRequest [] [] True
       [''for='' @ [CHR 0x22] @ ''[2001:db8::1]'' @ [CHR 0x22] @ '',for=8.8.8.8'']) = Inr ''2001:db8::1''"
  by code_simp

text \<open>
  Claim C3, amended. When the scan of \<open>X-Forwarded-For\<close> finds no public address and
  \<open>Forwarded\<close> is not empty, the header is split on \<open>;\<close> and then on \<open>,\<close>; every piece that
  contains \<open>for\<close> and splits on \<open>=\<close> into exactly two parts gives a candidate, the second
  part without the white space around it, then without all its leading \<open>"\<close> and \<open>[\<close> and
  without all its trailing \<open>]\<close> and \<open>"\<close>; the other pieces give none. \<open>FromRequest\<close> returns
  the first candidate that parses and is classified as not reserved.
\<close>

theorem FromRequest_forwarded_first_public:
  assumes "List.find isPublic (forwardedForTokens (index (Header r) xForwardedForHeader)) = None"
    and "Get (Header r) forwardedHeader \<noteq> []"
    and "List.find isPublic (forwardedCandidates (Get (Header r) forwardedHeader)) = Some address"
  shows "FromRequest r = Inr address
    \<and> forwardedCandidates (Get (Header r) forwardedHeader)
        = List.map_filter
            (\<lambda>b. if Contains b ''for'' \<and> length (Split b (CHR ''='')) = 2
                 then Some (rev (dropWhile (\<lambda>c. c = CHR '']'' \<or> c = CHR 0x22)
                        (rev (dropWhile (\<lambda>c. c = CHR 0x22 \<or> c = CHR ''['')
                           (TrimSpace (Split b (CHR ''='') ! 1))))))
                 else None)
            (concat (map (\<lambda>a. Split a (CHR '','')) (Split (Get (Header r) forwardedHeader) (CHR '';''))))"
proof -
  from assms(2) have "\<not> allAbsent r"
    by (simp add: allAbsent_def)
  with assms(1,3) have "FromRequest r = Inr address"
    by (simp add: FromRequest_eq)
  moreover have "forwardedAddress =
      (\<lambda>b. if Contains b ''for'' \<and> length (Split b (CHR ''='')) = 2
            then Some (rev (dropWhile (\<lambda>c. c = CHR '']'' \<or> c = CHR 0x22)
                   (rev (dropWhile (\<lambda>c. c = CHR 0x22 \<or> c = CHR ''['')
                      (TrimSpace (Split b (CHR ''='') ! 1))))))
            else None)"
    by (rule ext) (simp add: forwardedAddress_def TrimLeft_def TrimRight_def)
  ultimately show ?thesis
    by (simp add: forwardedCandidates_def forwardedPiecesOf_def)
qed

text \<open>The amended claim C3 at \<open>Forwarded: for=127.0.0.0, for="[2001:db8::1]";by=203.0.113.43\<close>.\<close>

theorem FromRequest_forwarded_first_public_witness:
  "List.find isPublic (forwardedForTokens (index (Header (newRequest [] [] True
       [''for=127.0.0.0, for='' @ [CHR 0x22] @ ''[2001:db8::1]'' @ [CHR 0x22] @ '';by=203.0.113.43''])) xForwardedForHeader)) = None
   \<and> Get (Header (newRequest [] [] True
       [''for=127.0.0.0, for='' @ [CHR 0x22] @ ''[2001:db8::1]'' @ [CHR 0x22] @ '';by=203.0.113.43''])) forwardedHeader \<noteq> []
   \<and> forwardedCandidates (Get (Header (newRequest [] [] True
       [''for=127.0.0.0, for='' @ [CHR 0x22] @ ''[2001:db8::1]'' @ [CHR 0x22] @ '';by=203.0.113.43''])) forwardedHeader)
       = [''127.0.0.0'', ''2001:db8::1'']
   \<and> FromRequest (newRequest [] [] True
       [''for=127.0.0.0, for='' @ [CHR 0x22] @ ''[2001:db8::1]'' @ [CHR 0x22] @ '';by=203.0.113.43'']) = Inr ''2001:db8::1''"
proof -
  let ?r = "newRequest [] [] True
       [''for=127.0.0.0, for='' @ [CHR 0x22] @ ''[2001:db8::1]'' @ [CHR 0x22] @ '';by=203.0.113.43'']"
  have 1: "List.find isPublic (forwardedForTokens (index (Header ?r) xForwardedForHeader)) = None"
    by code_simp
  have 2: "Get (Header ?r) forwardedHeader \<noteq> []"
    by code_simp
  have 3: "List.find isPublic (forwardedCandidates (Get (Header ?r) forwardedHeader)) = Some ''2001:db8::1''"
    by code_simp
  have 4: "forwardedCandidates (Get (Header ?r) forwardedHeader) = [''127.0.0.0'', ''2001:db8::1'']"
    by code_simp
  from FromRequest_forwarded_first_public [OF 1 2 3] have "FromRequest ?r = Inr ''2001:db8::1''"
    by blast
  with 1 2 4 show ?thesis by blast
qed

text \<open>
  Claim C4 says that without headers the remote address is split at its last colon. The
  source calls \<open>net.SplitHostPort\<close>, which also takes the brackets off the host: for the
  remote address \<open>[2001:db8::1]:443\<close> the part before the last colon is \<open>[2001:db8::1]\<close>,
  and \<open>FromRequest\<close> returns \<open>2001:db8::1\<close>.
\<close>

theorem remote_addr_last_colon_counterexample:
  "allAbsent (newRequest ''[2001:db8::1]:443'' [] False [])
   \<and> stripPortAtLastColon (RemoteAddr (newRequest ''[2001:db8::1]:443'' [] False [])) = ''[2001:db8::1]''
   \<and> FromRequest (newRequest ''[2001:db8::1]:443'' [] False []) = Inr ''2001:db8::1''"
  by code_simp

text \<open>
  Claim C4, amended. When the three header sources are absent or empty, a remote address
  without a colon is returned as it is; and for a remote address \<open>host:port\<close> with no colon
  and no bracket in \<open>host\<close> and in \<open>port\<close>, \<open>FromRequest\<close> returns \<open>host\<close>, the part before
  the last colon.
\<close>

theorem FromRequest_remote_addr:
  assumes "allAbsent r"
  shows "(CHR '':'' \<notin> set (RemoteAddr r) \<longrightarrow> FromRequest r = Inr (RemoteAddr r))
    \<and> (\<forall>host port. RemoteAddr r = host @ CHR '':'' # port
          \<longrightarrow> CHR '':'' \<notin> set host \<and> CHR ''['' \<notin> set host \<and> CHR '']'' \<notin> set host
          \<longrightarrow> CHR '':'' \<notin> set port \<and> CHR ''['' \<notin> set port \<and> CHR '']'' \<notin> set port
          \<longrightarrow> FromRequest r = Inr host \<and> host = stripPortAtLastColon (RemoteAddr r))"
  using assms
  by (simp add: FromRequest_eq SplitHostPort_plain stripPortAtLastColon_split)

text \<open>The amended claim C4 at the two requests without headers of \<open>TestRealIP\<close>.\<close>

theorem FromRequest_remote_addr_witness:
  "allAbsent (newRequest ''13.182.55.11:8080'' [] False [])
   \<and> FromRequest (newRequest ''13.182.55.11:8080'' [] False []) = Inr ''13.182.55.11''
   \<and> stripPortAtLastColon ''13.182.55.11:8080'' = ''13.182.55.11''
   \<and> allAbsent (newRequest ''144.12.54.87'' [] False [])
   \<and> FromRequest (newRequest ''144.12.54.87'' [] False []) = Inr ''144.12.54.87''"
proof -
  let ?r = "newRequest ''13.182.55.11:8080'' [] False []"
  let ?q = "newRequest ''144.12.54.87'' [] False []"
  have r1: "allAbsent ?r" by code_simp
  have r2: "RemoteAddr ?r = ''13.182.55.11'' @ CHR '':'' # ''8080''" by code_simp
  have r3: "CHR '':'' \<notin> set ''13.182.55.11'' \<and> CHR ''['' \<notin> set ''13.182.55.11'' \<and> CHR '']'' \<notin> set ''13.182.55.11''"
    by simp
  have r4: "CHR '':'' \<notin> set ''8080'' \<and> CHR ''['' \<notin> set ''8080'' \<and> CHR '']'' \<notin> set ''8080''"
    by simp
  have r5: "RemoteAddr ?r = ''13.182.55.11:8080''" by code_simp
  have q1: "allAbsent ?q" by code_simp
  have q2: "CHR '':'' \<notin> set (RemoteAddr ?q)" by code_simp
  have q3: "RemoteAddr ?q = ''144.12.54.87''" by code_simp
  from FromRequest_remote_addr [OF r1] r2 r3 r4
  have "FromRequest ?r = Inr ''13.182.55.11'' \<and> ''13.182.55.11'' = stripPortAtLastColon (RemoteAddr ?r)"
    by blast
  moreover from FromRequest_remote_addr [OF q1] q2 q3 have "FromRequest ?q = Inr ''144.12.54.87''"
    by simp
  ultimately show ?thesis using r1 q1 r5 by simp
qed

text \<open>
  Claim C10. When the three header sources are absent or empty and the remote address
  contains a colon, \<open>FromRequest\<close> returns the host that \<open>net.SplitHostPort\<close> gives, and the
  empty string when \<open>net.SplitHostPort\<close> gives an error, which is dropped:
  \<open>[2001:db8::1]:443\<close> gives \<open>2001:db8::1\<close>, and \<open>::1\<close>, which has too many colons, gives
  the empty string.
\<close>

theorem FromRequest_host_port:
  "(allAbsent r \<and> CHR '':'' \<in> set (RemoteAddr r) \<longrightarrow>
      FromRequest r =
        Inr (case SplitHostPort (RemoteAddr r) of
               (host, port, None) \<Rightarrow> host
             | (host, port, Some err) \<Rightarrow> []))
   \<and> SplitHostPort ''[2001:db8::1]:443'' = (''2001:db8::1'', ''443'', None)
   \<and> FromRequest (newRequest ''[2001:db8::1]:443'' [] False []) = Inr ''2001:db8::1''
   \<and> SplitHostPort ''::1'' = ([], [], Some (AddrError ''too many colons in address'' ''::1''))
   \<and> FromRequest (newRequest ''::1'' [] False []) = Inr []"
proof -
  have "FromRequest r =
        Inr (case SplitHostPort (RemoteAddr r) of
               (host, port, None) \<Rightarrow> host
             | (host, port, Some err) \<Rightarrow> [])"
    if "allAbsent r" "CHR '':'' \<in> set (RemoteAddr r)"
  proof -
    obtain host port err where s: "SplitHostPort (RemoteAddr r) = (host, port, err)"
      by (metis surj_pair)
    show ?thesis
    proof (cases err)
      case None
      with s that show ?thesis by (simp add: FromRequest_eq)
    next
      case (Some e)
      with s SplitHostPort_error_host [of "RemoteAddr r"] have "host = []"
        by simp
      with s Some that show ?thesis by (simp add: FromRequest_eq)
    qed
  qed
  moreover have "SplitHostPort ''[2001:db8::1]:443'' = (''2001:db8::1'', ''443'', None)"
    by code_simp
  moreover have "FromRequest (newRequest ''[2001:db8::1]:443'' [] False []) = Inr ''2001:db8::1''"
    by code_simp
  moreover have "SplitHostPort ''::1'' = ([], [], Some (AddrError ''too many colons in address'' ''::1''))"
    by code_simp
  moreover have "FromRequest (newRequest ''::1'' [] False []) = Inr []"
    by code_simp
  ultimately show ?thesis by blast
qed

text \<open>Claim C10 at the remote address \<open>[fe80::1]:8080\<close>.\<close>

theorem FromRequest_host_port_witness:
  "allAbsent (newRequest ''[fe80::1]:8080'' [] False [])
   \<and> CHR '':'' \<in> set (RemoteAddr (newRequest ''[fe80::1]:8080'' [] False []))
   \<and> FromRequest (newRequest ''[fe80::1]:8080'' [] False []) = Inr ''fe80::1''"
proof -
  let ?r = "newRequest ''[fe80::1]:8080'' [] False []"
  have 1: "allAbsent ?r" by code_simp
  have 2: "CHR '':'' \<in> set (RemoteAddr ?r)" by code_simp
  have 3: "SplitHostPort (RemoteAddr ?r) = (''fe80::1'', ''8080'', None)" by code_simp
  from FromRequest_host_port [of ?r] 1 2 3 have "FromRequest ?r = Inr ''fe80::1''"
    by simp
  with 1 2 show ?thesis by blast
qed

text \<open>
  Claim C5 says that an empty result needs all three header sources absent and an empty
  remote address. With \<open>X-Forwarded-For: 10.0.0.1\<close>, no \<open>X-Real-IP\<close> and the remote address
  \<open>13.182.55.11:8080\<close>, no scan finds a public address and \<open>FromRequest\<close> returns the value
  of \<open>X-Real-IP\<close>, the empty string.
\<close>

theorem empty_result_counterexample:
  "FromRequest (newRequest ''13.182.55.11:8080'' [] False [''10.0.0.1'']) = Inr []
   \<and> index (Header (newRequest ''13.182.55.11:8080'' [] False [''10.0.0.1''])) xForwardedForHeader
       = [''10.0.0.1'']
   \<and> RemoteAddr (newRequest ''13.182.55.11:8080'' [] False [''10.0.0.1'']) = ''13.182.55.11:8080''
   \<and> \<not> allAbsent (newRequest ''13.182.55.11:8080'' [] False [''10.0.0.1''])"
  by code_simp

text \<open>
  Claim C5, amended. When \<open>FromRequest\<close> returns the empty string, \<open>X-Real-IP\<close> is absent or
  empty and neither scan finds a public address; and when moreover all three header
  sources are absent or empty, the remote address is empty, or it contains a colon and
  \<open>net.SplitHostPort\<close> gives it an empty host.
\<close>

theorem FromRequest_empty_result:
  assumes "FromRequest r = Inr []"
  shows "Get (Header r) xRealIpHeader = []
    \<and> List.find isPublic (forwardedForTokens (index (Header r) xForwardedForHeader)) = None
    \<and> List.find isPublic (forwardedCandidates (Get (Header r) forwardedHeader)) = None
    \<and> (allAbsent r \<longrightarrow>
         RemoteAddr r = []
         \<or> (CHR '':'' \<in> set (RemoteAddr r) \<and> fst (SplitHostPort (RemoteAddr r)) = []))"
proof (cases "allAbsent r")
  case True
  have none: "forwardedCandidates [] = []"
    by code_simp
  from True have "forwardedForTokens (index (Header r) xForwardedForHeader) = []"
    and "forwardedCandidates (Get (Header r) forwardedHeader) = []"
    and "Get (Header r) xRealIpHeader = []"
    by (simp_all add: allAbsent_def forwardedForTokens_def none)
  moreover from True assms
  have "RemoteAddr r = [] \<or> (CHR '':'' \<in> set (RemoteAddr r) \<and> fst (SplitHostPort (RemoteAddr r)) = [])"
    by (simp add: FromRequest_eq split: if_splits)
  ultimately show ?thesis by simp
next
  case False
  show ?thesis
  proof (cases "List.find isPublic (forwardedForTokens (index (Header r) xForwardedForHeader))")
    case (Some a)
    with False assms find_isPublic_nonempty [OF Some] show ?thesis
      by (simp add: FromRequest_eq)
  next
    case None
    show ?thesis
    proof (cases "List.find isPublic (forwardedCandidates (Get (Header r) forwardedHeader))")
      case (Some a)
      with False None assms find_isPublic_nonempty [OF Some] show ?thesis
        by (simp add: FromRequest_eq)
    next
      case n: None
      with False None assms show ?thesis
        by (simp add: FromRequest_eq)
    qed
  qed
qed

text \<open>The amended claim C5 at the request above and at the request with nothing in it.\<close>

theorem FromRequest_empty_result_witness:
  "FromRequest (newRequest ''13.182.55.11:8080'' [] False [''10.0.0.1'']) = Inr []
   \<and> Get (Header (newRequest ''13.182.55.11:8080'' [] False [''10.0.0.1''])) xRealIpHeader = []
   \<and> FromRequest (newRequest [] [] False []) = Inr []
   \<and> allAbsent (newRequest [] [] False [])
   \<and> RemoteAddr (newRequest [] [] False []) = []"
proof -
  let ?r = "newRequest ''13.182.55.11:8080'' [] False [''10.0.0.1'']"
  let ?q = "newRequest [] [] False []"
  have 1: "FromRequest ?r = Inr []" by code_simp
  have 2: "FromRequest ?q = Inr []" by code_simp
  have 3: "allAbsent ?q" by code_simp
  have 4: "CHR '':'' \<notin> set (RemoteAddr ?q)" by code_simp
  from FromRequest_empty_result [OF 1] have "Get (Header ?r) xRealIpHeader = []"
    by blast
  moreover from FromRequest_empty_result [OF 2] 3 4 have "RemoteAddr ?q = []"
    by blast
  ultimately show ?thesis using 1 2 3 by blast
qed




end
